theory Spec2Isabelle
  imports Complex_Main "HOL-Library.Multiset"
begin

section \<open>Data model of \<^verbatim>\<open>src/lib/ai-recommendations.ts\<close>\<close>

text \<open>
  JavaScript numbers are read as real numbers (prices, scores, rating averages), as
  natural numbers where the field is a count, and as integers where they are an array
  bound (\<^verbatim>\<open>maxRecommendations\<close>, \<^verbatim>\<open>maxResults\<close>); rounding, \<^verbatim>\<open>NaN\<close> and the
  infinities of IEEE doubles are outside the model. A \<^verbatim>\<open>Date\<close> is its number of
  milliseconds. Field names that several interfaces share are written qualified
  (\<open>product.category\<close>, \<open>recommendation.category\<close>); the field \<^verbatim>\<open>id\<close> is \<open>id'\<close>.
\<close>

record ratings =
  average :: real
  count :: nat

text \<open>
  \<^verbatim>\<open>inStock\<close> is declared by the catalog's \<^verbatim>\<open>Product\<close> interface (the objects the
  pages pass in); the service's own interface omits it and no service code reads it.
\<close>

record product =
  id' :: string
  name :: string
  category :: string
  subcategory :: string
  price :: real
  originalPrice :: real
  description :: string
  features :: "string list"
  tags :: "string list"
  brand :: string
  ratings :: ratings
  inStock :: bool

datatype interaction_type = View | Like | Purchase | Cart_add | Wishlist_add

record metadata =
  searchQuery :: "string option"
  category :: "string option"
  price :: "real option"
  referrer :: "string option"
  durationOnProduct :: "real option"

text \<open>
  \<^verbatim>\<open>Omit<UserInteraction, 'id' | 'timestamp'>\<close> is the parent record and
  \<^verbatim>\<open>UserInteraction\<close> its extension.
\<close>

record interaction_input =
  userId :: string
  productId :: string
  interactionType :: interaction_type
  sessionId :: string
  metadata :: "metadata option"

record user_interaction = interaction_input +
  id' :: string
  timestamp :: int

record user_analysis =
  intent :: string
  categoryStrength :: real
  brandLoyalty :: real
  priceSensitivity :: real
  topFeatures :: "string list"
  behaviorPatterns :: "string list"

text \<open>The object that \<^verbatim>\<open>getUserAnalytics\<close> returns.\<close>

record analytics =
  totalInteractions :: nat
  interactionCounts :: "interaction_type \<rightharpoonup> nat"
  categoryViews :: "string \<rightharpoonup> nat"
  avgSessionDuration :: real
  recentActivity :: nat
  preferredCategories :: "string list"
  preferredBrands :: "string list"
  priceRange :: "real \<times> real"
  accountAge :: int

text \<open>
  The service's \<^verbatim>\<open>UserPreference\<close>; the tracker's interface of the same name adds
  \<^verbatim>\<open>lastUpdated\<close> and is the extension \<open>tracked_preference\<close> below.
\<close>

record user_preference =
  userId :: string
  preferredCategories :: "string list"
  preferredBrands :: "string list"
  priceRange :: "real \<times> real"
  preferredFeatures :: "string list"
  interactionHistory :: "user_interaction list"

record tracked_preference = user_preference +
  lastUpdated :: int

record recommendation =
  productId :: string
  score :: real
  reason :: string
  category :: string

datatype error = ModelError | ParseError

section \<open>Array operations of the language\<close>

text \<open>
  \<^verbatim>\<open>Array.prototype.slice(start, end)\<close> on integer arguments: a negative index
  counts from the end, and both are clamped to the array.
\<close>

definition relative_index :: "int \<Rightarrow> nat \<Rightarrow> nat" where
  "relative_index k len = (if k < 0 then nat (max (int len + k) 0) else min (nat k) len)"

definition slice :: "int \<Rightarrow> int \<Rightarrow> 'a list \<Rightarrow> 'a list" where
  "slice start fin xs =
     (let k = relative_index start (length xs);
          final = relative_index fin (length xs)
      in take (final - k) (drop k xs))"

definition slice_from :: "int \<Rightarrow> 'a list \<Rightarrow> 'a list" where
  "slice_from start xs = drop (relative_index start (length xs)) xs"

text \<open>
  \<^verbatim>\<open>Array.prototype.sort(compareFn)\<close> is stable; with a comparator that is a
  difference of keys its result is the one of the stable insertion sort: an element goes
  before the first element that the comparator does not put before it.
\<close>

fun insert_cmp :: "('a \<Rightarrow> 'a \<Rightarrow> real) \<Rightarrow> 'a \<Rightarrow> 'a list \<Rightarrow> 'a list" where
  "insert_cmp c x [] = [x]"
| "insert_cmp c x (y # ys) = (if c x y \<le> 0 then x # y # ys else y # insert_cmp c x ys)"

definition sort_cmp :: "('a \<Rightarrow> 'a \<Rightarrow> real) \<Rightarrow> 'a list \<Rightarrow> 'a list" where
  "sort_cmp c xs = foldr (insert_cmp c) xs []"

text \<open>\<^verbatim>\<open>Array.prototype.findIndex\<close>: the first index that satisfies the test, else -1.\<close>

fun findIndex :: "('a \<Rightarrow> bool) \<Rightarrow> 'a list \<Rightarrow> int" where
  "findIndex P [] = - 1"
| "findIndex P (x # xs) =
     (if P x then 0 else (let k = findIndex P xs in if k < 0 then - 1 else k + 1))"

text \<open>\<^verbatim>\<open>Array.prototype.filter\<close> with the three-argument callback (element, index, array).\<close>

definition filter_indexed :: "('a \<Rightarrow> nat \<Rightarrow> 'a list \<Rightarrow> bool) \<Rightarrow> 'a list \<Rightarrow> 'a list" where
  "filter_indexed f xs = map fst (filter (\<lambda>(x, i). f x i xs) (zip xs [0..<length xs]))"

section \<open>The generative model\<close>

text \<open>
  A reply of \<^verbatim>\<open>model.generateContent\<close> either rejects or carries a text. The code looks
  at a text only through \<^verbatim>\<open>text.match(/\{[\s\S]*\}/)\<close> or \<^verbatim>\<open>text.match(/\[[\s\S]*\]/)\<close>
  followed by \<^verbatim>\<open>JSON.parse\<close> of the match, so a text is represented by the outcome of
  these two extractions: no match, a match that \<^verbatim>\<open>JSON.parse\<close> rejects, or the parsed
  value, taken at the TypeScript type the code gives it.
\<close>

datatype 'a extraction = NoMatch | Unparsable | Parsed 'a

datatype reply =
    Rejects
  | Text (object_in: "user_analysis extraction") (array_in: "recommendation list extraction")

text \<open>A prompt is represented by the call site and the data its template interpolates.\<close>

datatype prompt =
    BehaviorPrompt "string list" "string list" "real \<times> real" "string list"
      "(interaction_type \<times> int \<times> string) list"
  | ContentPrompt "product list" "product list" user_analysis
  | CollaborativePrompt "string list" "string list" "real \<times> real" string "string list"
      "product list"
  | RankPrompt user_analysis "recommendation list"
  | TrendingPrompt "product list" int
  | SimilarPrompt product "product list" int

text \<open>
  The external model: its answer to the \<open>n\<close>-th call may depend on \<open>n\<close> and on the prompt;
  \<open>prompts\<close> is the log of the calls made so far.
\<close>

record gemini =
  respond :: "nat \<Rightarrow> prompt \<Rightarrow> reply"
  prompts :: "prompt list"

definition generateContent :: "gemini \<Rightarrow> prompt \<Rightarrow> reply \<times> gemini" where
  "generateContent g p = (respond g (length (prompts g)) p, g\<lparr>prompts := prompts g @ [p]\<rparr>)"

section \<open>AIRecommendationService\<close>

definition default_analysis :: "'a user_preference_scheme \<Rightarrow> user_analysis" where
  "default_analysis userPreferences =
     \<lparr>intent = ''browsing'', categoryStrength = 5, brandLoyalty = 5, priceSensitivity = 5,
      topFeatures = slice 0 3 (preferredFeatures userPreferences),
      behaviorPatterns = [''general_browsing'']\<rparr>"

definition analyzeUserBehavior ::
  "gemini \<Rightarrow> 'a user_preference_scheme \<Rightarrow> (error + user_analysis) \<times> gemini" where
  "analyzeUserBehavior g userPreferences =
     (let recentInteractions =
            map (\<lambda>interaction. (interactionType interaction, timestamp interaction,
                                 interaction_input.productId interaction))
              (slice_from (- 20) (interactionHistory userPreferences));
          (r, g') = generateContent g
            (BehaviorPrompt (preferredCategories userPreferences)
               (preferredBrands userPreferences) (priceRange userPreferences)
               (preferredFeatures userPreferences) recentInteractions)
      in case r of
           Rejects \<Rightarrow> (Inl ModelError, g')
         | Text obj arr \<Rightarrow>
             (case obj of
                Parsed analysis \<Rightarrow> (Inr analysis, g')
              | _ \<Rightarrow> (Inr (default_analysis userPreferences), g')))"

definition getContentBasedRecommendations ::
  "gemini \<Rightarrow> product list \<Rightarrow> 'a user_preference_scheme \<Rightarrow> user_analysis
     \<Rightarrow> (error + recommendation list) \<times> gemini" where
  "getContentBasedRecommendations g products userPreferences userAnalysis =
     (let interactedProductIds =
            map interaction_input.productId (interactionHistory userPreferences);
          interactedProducts =
            filter (\<lambda>p. product.id' p \<in> set interactedProductIds) products
      in if length interactedProducts = 0 then (Inr [], g)
         else
           (let (r, g') = generateContent g
                  (ContentPrompt interactedProducts
                     (slice 0 50 (filter (\<lambda>p. product.id' p \<notin> set interactedProductIds) products))
                     userAnalysis)
            in case r of
                 Rejects \<Rightarrow> (Inl ModelError, g')
               | Text obj arr \<Rightarrow>
                   (case arr of Parsed recs \<Rightarrow> (Inr recs, g') | _ \<Rightarrow> (Inr [], g'))))"

definition getCollaborativeRecommendations ::
  "gemini \<Rightarrow> product list \<Rightarrow> 'a user_preference_scheme \<Rightarrow> user_analysis
     \<Rightarrow> (error + recommendation list) \<times> gemini" where
  "getCollaborativeRecommendations g products userPreferences userAnalysis =
     (let (r, g') = generateContent g
            (CollaborativePrompt (preferredCategories userPreferences)
               (preferredBrands userPreferences) (priceRange userPreferences)
               (intent userAnalysis) (behaviorPatterns userAnalysis) (slice 0 30 products))
      in case r of
           Rejects \<Rightarrow> (Inl ModelError, g')
         | Text obj arr \<Rightarrow>
             (case arr of Parsed recs \<Rightarrow> (Inr recs, g') | _ \<Rightarrow> (Inr [], g')))"

definition uniqueRecommendations :: "recommendation list \<Rightarrow> recommendation list" where
  "uniqueRecommendations allRecommendations =
     filter_indexed
       (\<lambda>rec index self.
          findIndex (\<lambda>r. recommendation.productId r = recommendation.productId rec) self
            = int index)
       allRecommendations"

definition combineAndRankRecommendations ::
  "gemini \<Rightarrow> recommendation list \<Rightarrow> recommendation list \<Rightarrow> user_analysis
     \<Rightarrow> (error + recommendation list) \<times> gemini" where
  "combineAndRankRecommendations g contentRecommendations collaborativeRecommendations
       userAnalysis =
     (let allRecommendations = contentRecommendations @ collaborativeRecommendations;
          unique = uniqueRecommendations allRecommendations;
          (r, g') = generateContent g (RankPrompt userAnalysis unique)
      in case r of
           Rejects \<Rightarrow> (Inl ModelError, g')
         | Text obj arr \<Rightarrow>
             (case arr of
                Parsed recs \<Rightarrow> (Inr recs, g')
              | _ \<Rightarrow> (Inr (sort_cmp (\<lambda>a b. score b - score a) unique), g')))"

definition getFallbackRecommendations ::
  "product list \<Rightarrow> 'a user_preference_scheme \<Rightarrow> int \<Rightarrow> recommendation list" where
  "getFallbackRecommendations products userPreferences maxRecommendations =
     (let interactedProductIds =
            map interaction_input.productId (interactionHistory userPreferences);
          availableProducts =
            filter (\<lambda>p. product.id' p \<notin> set interactedProductIds) products
      in map (\<lambda>p. \<lparr>recommendation.productId = product.id' p,
                    score = average (ratings p) * 20,
                    reason = ''Recommended based on your interest in '' @ product.category p,
                    category = ''fallback''\<rparr>)
           (slice 0 maxRecommendations
              (sort_cmp (\<lambda>a b. average (ratings b) - average (ratings a))
                 (filter (\<lambda>p. product.category p \<in> set (preferredCategories userPreferences))
                    availableProducts))))"

text \<open>The body of the \<^verbatim>\<open>try\<close> block of \<^verbatim>\<open>generateRecommendations\<close>.\<close>

definition pipeline ::
  "gemini \<Rightarrow> product list \<Rightarrow> 'a user_preference_scheme \<Rightarrow> int
     \<Rightarrow> (error + recommendation list) \<times> gemini" where
  "pipeline g products userPreferences maxRecommendations =
     (case analyzeUserBehavior g userPreferences of
        (Inl e, g1) \<Rightarrow> (Inl e, g1)
      | (Inr userAnalysis, g1) \<Rightarrow>
     (case getContentBasedRecommendations g1 products userPreferences userAnalysis of
        (Inl e, g2) \<Rightarrow> (Inl e, g2)
      | (Inr contentRecommendations, g2) \<Rightarrow>
     (case getCollaborativeRecommendations g2 products userPreferences userAnalysis of
        (Inl e, g3) \<Rightarrow> (Inl e, g3)
      | (Inr collaborativeRecommendations, g3) \<Rightarrow>
     (case combineAndRankRecommendations g3 contentRecommendations
             collaborativeRecommendations userAnalysis of
        (Inl e, g4) \<Rightarrow> (Inl e, g4)
      | (Inr combinedRecommendations, g4) \<Rightarrow>
          (Inr (slice 0 maxRecommendations combinedRecommendations), g4)))))"

definition generateRecommendations ::
  "gemini \<Rightarrow> string \<Rightarrow> product list \<Rightarrow> 'a user_preference_scheme \<Rightarrow> int
     \<Rightarrow> (error + recommendation list) \<times> gemini" where
  "generateRecommendations g userId' products userPreferences maxRecommendations =
     (case pipeline g products userPreferences maxRecommendations of
        (Inr recs, g') \<Rightarrow> (Inr recs, g')
      | (Inl e, g') \<Rightarrow>
          (Inr (getFallbackRecommendations products userPreferences maxRecommendations), g'))"

text \<open>
  \<^verbatim>\<open>getTrendingProducts\<close> and \<^verbatim>\<open>getSimilarProducts\<close> wrap the model call and the parse in
  one \<^verbatim>\<open>try\<close> block and continue with the heuristic below it. \<open>toString\<close> is the
  language's conversion of a number to text in a template.
\<close>

definition trendingFallback ::
  "(real \<Rightarrow> string) \<Rightarrow> product list \<Rightarrow> int \<Rightarrow> recommendation list" where
  "trendingFallback toString products maxResults =
     map (\<lambda>p. \<lparr>recommendation.productId = product.id' p,
                  score = average (ratings p) * 20,
                  reason = ''Trending due to high rating ('' @ toString (average (ratings p))
                    @ '') and '' @ toString (real (ratings.count (ratings p))) @ '' reviews'',
                  category = ''trending''\<rparr>)
       (slice 0 maxResults
          (sort_cmp (\<lambda>a b. average (ratings b) * ln (real (ratings.count (ratings b)) + 1)
                           - average (ratings a) * ln (real (ratings.count (ratings a)) + 1))
             products))"

definition getTrendingProducts ::
  "(real \<Rightarrow> string) \<Rightarrow> gemini \<Rightarrow> product list \<Rightarrow> int \<Rightarrow> recommendation list \<times> gemini" where
  "getTrendingProducts toString g products maxResults =
     (let (r, g') = generateContent g (TrendingPrompt (slice 0 50 products) maxResults)
      in case r of
           Rejects \<Rightarrow> (trendingFallback toString products maxResults, g')
         | Text obj arr \<Rightarrow>
             (case arr of
                Parsed recs \<Rightarrow> (recs, g')
              | _ \<Rightarrow> (trendingFallback toString products maxResults, g')))"

definition similarFallback :: "product \<Rightarrow> product list \<Rightarrow> int \<Rightarrow> recommendation list" where
  "similarFallback targetProduct allProducts maxResults =
     map (\<lambda>p. \<lparr>recommendation.productId = product.id' p,
                  score = 80 - \<bar>product.price p - product.price targetProduct\<bar> / 10,
                  reason = ''Similar '' @ product.category p @ '' product from '' @ brand p,
                  category = ''similar''\<rparr>)
       (slice 0 maxResults
          (sort_cmp (\<lambda>a b. \<bar>product.price a - product.price targetProduct\<bar>
                           - \<bar>product.price b - product.price targetProduct\<bar>)
             (filter (\<lambda>p. product.id' p \<noteq> product.id' targetProduct
                          \<and> product.category p = product.category targetProduct)
                allProducts)))"

definition getSimilarProducts ::
  "gemini \<Rightarrow> product \<Rightarrow> product list \<Rightarrow> int \<Rightarrow> recommendation list \<times> gemini" where
  "getSimilarProducts g targetProduct allProducts maxResults =
     (let (r, g') = generateContent g
            (SimilarPrompt targetProduct
               (slice 0 30 (filter (\<lambda>p. product.id' p \<noteq> product.id' targetProduct) allProducts))
               maxResults)
      in case r of
           Rejects \<Rightarrow> (similarFallback targetProduct allProducts maxResults, g')
         | Text obj arr \<Rightarrow>
             (case arr of
                Parsed recs \<Rightarrow> (recs, g')
              | _ \<Rightarrow> (similarFallback targetProduct allProducts maxResults, g')))"

section \<open>InteractionTracker\<close>

text \<open>
  The remote store is an external collaborator: an awaited call either rejects or
  resolves, an insert resolves with or without an \<^verbatim>\<open>error\<close>, a select resolves with
  \<^verbatim>\<open>data\<close> that may be \<^verbatim>\<open>null\<close>. \<open>remote_ops\<close> logs the calls the tracker issues.
\<close>

datatype 'a remote_reply = Throws | Returns 'a

datatype write_result = Ok | Failed

record preferences_row =
  preferred_categories :: "string list option"
  preferred_brands :: "string list option"
  price_range_min :: "real option"
  price_range_max :: "real option"
  preferred_features :: "string list option"
  updated_at :: "int option"

record interaction_row =
  id' :: string
  product_id :: string
  interaction_type :: interaction_type
  created_at :: int
  session_id :: string
  metadata :: "metadata option"

record inserted_row =
  user_id :: string
  product_id :: string
  interaction_type :: interaction_type
  session_id :: string
  metadata :: metadata

datatype remote_op =
    AuthGetUser
  | InsertInteraction inserted_row
  | SelectPreferences string
  | SelectInteractions string

record supabase =
  auth_getUser :: "string option remote_reply"
  insert_interaction :: "inserted_row \<Rightarrow> write_result remote_reply"
  select_preferences :: "string \<Rightarrow> preferences_row option remote_reply"
  select_interactions :: "string \<Rightarrow> interaction_row list option remote_reply"

text \<open>
  An item of \<^verbatim>\<open>localStorage\<close>: absent, the JSON text of a value of the expected shape, or
  a text that \<^verbatim>\<open>JSON.parse\<close> rejects or that has another shape. The preferences are
  keyed by the suffix of \<^verbatim>\<open>user_preferences_<id>\<close>.
\<close>

datatype 'a stored = Missing | Json 'a | Garbage

record world =
  stored_interactions :: "user_interaction list stored"
  stored_preferences :: "string \<Rightarrow> tracked_preference stored"
  remote_ops :: "remote_op list"

record tracker =
  supabase :: supabase
  sessionId :: string

definition empty_metadata :: metadata where
  "empty_metadata =
     \<lparr>searchQuery = None, category = None, price = None, referrer = None,
      durationOnProduct = None\<rparr>"


definition issue :: "remote_op \<Rightarrow> world \<Rightarrow> world" where
  "issue op w = w\<lparr>remote_ops := remote_ops w @ [op]\<rparr>"

text \<open>
  \<open>newId\<close> and \<open>now\<close> are what \<^verbatim>\<open>Math.random().toString(36).substring(2, 15)\<close> and
  \<^verbatim>\<open>new Date()\<close> give at the call.
\<close>

definition newInteraction ::
  "tracker \<Rightarrow> string \<Rightarrow> int \<Rightarrow> interaction_input \<Rightarrow> user_interaction" where
  "newInteraction t newId now interaction =
     \<lparr>interaction_input.userId = interaction_input.userId interaction,
      productId = interaction_input.productId interaction,
      interactionType = interactionType interaction,
      sessionId = tracker.sessionId t,
      metadata = Some (case interaction_input.metadata interaction of
                         None \<Rightarrow> empty_metadata | Some m \<Rightarrow> m),
      user_interaction.id' = newId,
      timestamp = now\<rparr>"

definition trackInteractionLocal ::
  "tracker \<Rightarrow> string \<Rightarrow> int \<Rightarrow> interaction_input \<Rightarrow> world \<Rightarrow> error + world" where
  "trackInteractionLocal t newId now interaction w =
     (case stored_interactions w of
        Garbage \<Rightarrow> Inl ParseError
      | stored \<Rightarrow>
          (let interactions =
                 (case stored of Json xs \<Rightarrow> xs | _ \<Rightarrow> [])
                   @ [newInteraction t newId now interaction];
               interactions =
                 (if length interactions > 1000
                  then drop (length interactions - 1000) interactions
                  else interactions)
           in Inr (w\<lparr>stored_interactions := Json interactions\<rparr>)))"

text \<open>
  Where the insert resolves with an error, the local write runs inside the \<^verbatim>\<open>try\<close> block,
  and the \<^verbatim>\<open>catch\<close> block runs it once more if it throws.
\<close>

definition trackInteraction ::
  "tracker \<Rightarrow> string \<Rightarrow> int \<Rightarrow> interaction_input \<Rightarrow> world \<Rightarrow> error + world" where
  "trackInteraction t newId now interaction w =
     (let w1 = issue AuthGetUser w
      in case auth_getUser (supabase t) of
           Throws \<Rightarrow> trackInteractionLocal t newId now interaction w1
         | Returns None \<Rightarrow> Inr w1
         | Returns (Some user) \<Rightarrow>
             (let row = \<lparr>user_id = user,
                         product_id = interaction_input.productId interaction,
                         interaction_type = interactionType interaction,
                         session_id = tracker.sessionId t,
                         metadata = (case interaction_input.metadata interaction of
                                       None \<Rightarrow> empty_metadata | Some m \<Rightarrow> m)\<rparr>;
                  w2 = issue (InsertInteraction row) w1
              in case insert_interaction (supabase t) row of
                   Throws \<Rightarrow> trackInteractionLocal t newId now interaction w2
                 | Returns Failed \<Rightarrow>
                     (case trackInteractionLocal t newId now interaction w2 of
                        Inl e \<Rightarrow> trackInteractionLocal t newId now interaction w2
                      | Inr w3 \<Rightarrow> Inr w3)
                 | Returns Ok \<Rightarrow> Inr w2))"

definition getDefaultPreferences :: "int \<Rightarrow> tracked_preference" where
  "getDefaultPreferences now =
     \<lparr>user_preference.userId = ''anonymous'', preferredCategories = [],
      preferredBrands = [], priceRange = (0, 3000), preferredFeatures = [],
      interactionHistory = [], lastUpdated = now\<rparr>"




definition getAllInteractions :: "world \<Rightarrow> user_interaction list" where
  "getAllInteractions w = (case stored_interactions w of Json xs \<Rightarrow> xs | _ \<Rightarrow> [])"




text \<open>One call of \<^verbatim>\<open>trackInteractionLocal\<close> after the other, each with its id and time.\<close>

fun trackInteractionsLocal ::
  "tracker \<Rightarrow> (string \<times> int \<times> interaction_input) list \<Rightarrow> world \<Rightarrow> error + world" where
  "trackInteractionsLocal t [] w = Inr w"
| "trackInteractionsLocal t ((newId, now, interaction) # events) w =
     (case trackInteractionLocal t newId now interaction w of
        Inl e \<Rightarrow> Inl e
      | Inr w' \<Rightarrow> trackInteractionsLocal t events w')"

section \<open>Example inputs\<close>

definition example_product ::
  "string \<Rightarrow> string \<Rightarrow> real \<Rightarrow> real \<Rightarrow> nat \<Rightarrow> bool \<Rightarrow> product" where
  "example_product i c p avg n stock =
     \<lparr>product.id' = i, name = i, category = c, subcategory = ''general'', price = p,
      originalPrice = p, description = ''a product'', features = [], tags = [],
      brand = ''Acme'', ratings = \<lparr>average = avg, count = n\<rparr>, inStock = stock\<rparr>"

definition example_catalog :: "product list" where
  "example_catalog =
     [example_product ''p1'' ''Electronics'' 999 4 10 False,
      example_product ''p2'' ''Electronics'' 500 4.8 200 True,
      example_product ''p3'' ''Books'' 20 5 7 True,
      example_product ''p4'' ''Electronics'' 300 4.5 50 True]"

definition example_event :: "string \<Rightarrow> string \<Rightarrow> interaction_input" where
  "example_event u p =
     \<lparr>interaction_input.userId = u, productId = p, interactionType = View,
      sessionId = ''test-session'', metadata = None\<rparr>"

definition example_interaction :: "string \<Rightarrow> string \<Rightarrow> user_interaction" where
  "example_interaction u p =
     \<lparr>interaction_input.userId = u, productId = p, interactionType = View,
      sessionId = ''test-session'', metadata = None,
      user_interaction.id' = ''i1'', timestamp = 0\<rparr>"

definition example_preference ::
  "string list \<Rightarrow> user_interaction list \<Rightarrow> user_preference" where
  "example_preference cats history =
     \<lparr>user_preference.userId = ''test-user-id'', preferredCategories = cats,
      preferredBrands = [''Acme''], priceRange = (0, 3000), preferredFeatures = [],
      interactionHistory = history\<rparr>"

definition example_recommendation :: "string \<Rightarrow> real \<Rightarrow> recommendation" where
  "example_recommendation p s =
     \<lparr>recommendation.productId = p, score = s, reason = ''because'',
      category = ''collaborative''\<rparr>"

text \<open>A model whose every call rejects.\<close>

definition rejecting_model :: gemini where
  "rejecting_model = \<lparr>respond = (\<lambda>n p. Rejects), prompts = []\<rparr>"

text \<open>A model that answers the first call with prose and rejects the second.\<close>

definition failing_second_model :: gemini where
  "failing_second_model =
     \<lparr>respond = (\<lambda>n p. if n = 1 then Rejects else Text NoMatch NoMatch), prompts = []\<rparr>"

text \<open>
  A model that proposes p1, p2 and p1 again at the collaborative stage; its ranking reply
  is prose in \<open>collaborative_model\<close> and an array that lists p1 twice in
  \<open>repeating_model\<close>.
\<close>

definition collaborative_model :: gemini where
  "collaborative_model =
     \<lparr>respond = (\<lambda>n p. case p of
          CollaborativePrompt _ _ _ _ _ _ \<Rightarrow>
            Text NoMatch (Parsed [example_recommendation ''p1'' 70,
                                  example_recommendation ''p2'' 90,
                                  example_recommendation ''p1'' 50])
        | _ \<Rightarrow> Text NoMatch NoMatch),
      prompts = []\<rparr>"

definition repeating_model :: gemini where
  "repeating_model =
     \<lparr>respond = (\<lambda>n p. case p of
          CollaborativePrompt _ _ _ _ _ _ \<Rightarrow>
            Text NoMatch (Parsed [example_recommendation ''p1'' 70,
                                  example_recommendation ''p2'' 90])
        | RankPrompt _ _ \<Rightarrow>
            Text NoMatch (Parsed [example_recommendation ''p1'' 95,
                                  example_recommendation ''p1'' 70])
        | _ \<Rightarrow> Text NoMatch NoMatch),
      prompts = []\<rparr>"


definition example_tracker :: "string option remote_reply \<Rightarrow> tracker" where
  "example_tracker auth =
     \<lparr>supabase = \<lparr>auth_getUser = auth,
                   insert_interaction = (\<lambda>row. Returns Ok),
                   select_preferences = (\<lambda>u. Returns None),
                   select_interactions = (\<lambda>u. Returns None)\<rparr>,
      sessionId = ''session-1''\<rparr>"



definition example_world :: "user_interaction list stored \<Rightarrow> world" where
  "example_world items =
     \<lparr>stored_interactions = items, stored_preferences = (\<lambda>k. Missing), remote_ops = []\<rparr>"

section \<open>Facts about the array operations\<close>

lemma insert_cmp_key: "insert_cmp (\<lambda>a b. f a - f b) x ys = insort_key f x ys"
  by (induction ys) simp_all

lemma sort_cmp_ascending: "sort_cmp (\<lambda>a b. f a - f b) xs = sort_key f xs"
proof -
  have "insert_cmp (\<lambda>a b. f a - f b) = insort_key f"
    by (intro ext) (rule insert_cmp_key)
  then show ?thesis
    by (simp add: sort_cmp_def sort_key_def)
qed

lemma sort_cmp_descending: "sort_cmp (\<lambda>a b. f b - f a) xs = sort_key (\<lambda>x. - f x) xs"
proof -
  have "(\<lambda>a b. f b - f a) = (\<lambda>a b. (- f a) - (- f b))"
    by (intro ext) simp
  then show ?thesis
    using sort_cmp_ascending [of "\<lambda>x. - f x" xs] by simp
qed

lemma slice_0_take: "0 \<le> m \<Longrightarrow> slice 0 m xs = take (nat m) xs"
  by (cases "nat m \<le> length xs") (simp_all add: slice_def relative_index_def min_def)

lemma set_slice: "set (slice a b xs) \<subseteq> set xs"
proof -
  have "set (take n (drop k xs)) \<subseteq> set xs" for n k
    by (meson set_drop_subset set_take_subset subset_trans)
  then show ?thesis
    by (simp add: slice_def Let_def)
qed

lemma length_slice_0: "0 \<le> m \<Longrightarrow> length (slice 0 m xs) \<le> nat m"
  by (simp add: slice_0_take)

lemma sorted_take_drop: "sorted ks \<Longrightarrow> sorted (take n (drop k ks))"
  by simp

lemma sorted_map_slice: "sorted (map f xs) \<Longrightarrow> sorted (map f (slice a b xs))"
  using sorted_take_drop [of "map f xs"]
  by (simp add: slice_def Let_def take_map drop_map)

lemma distinct_map_slice: "distinct (map f xs) \<Longrightarrow> distinct (map f (slice a b xs))"
proof -
  assume "distinct (map f xs)"
  then have "distinct (take n (drop k (map f xs)))" for n k
    by simp
  then show ?thesis
    by (simp add: slice_def Let_def take_map drop_map)
qed

lemma sorted_descending: "sorted (map (\<lambda>x. - f x) xs) \<Longrightarrow> sorted (rev (map f xs))"
  for f :: "'a \<Rightarrow> real"
  by (induction xs) (auto simp: sorted_append)

lemma set_sort_cmp_descending: "set (sort_cmp (\<lambda>a b. f b - f a) xs) = set xs"
  by (simp add: sort_cmp_descending)

lemma sorted_sort_cmp_descending: "sorted (map (\<lambda>x. - f x) (sort_cmp (\<lambda>a b. f b - f a) xs))"
  by (simp add: sort_cmp_descending)

lemma sorted_scaled:
  fixes f :: "'a \<Rightarrow> real"
  assumes "sorted (map (\<lambda>x. - f x) xs)"
  shows "sorted (map (\<lambda>x. - (f x * 20)) xs)"
  using assms by (induction xs) auto

lemma ln_101_6: "4.5 * ln (6::real) < 4 * ln (101::real)"
proof -
  have "ln (36::real) < ln 101" by (subst ln_less_cancel_iff) simp_all
  moreover have "ln (36::real) = 2 * ln 6"
    using ln_realpow [of "6::real" 2] by simp
  moreover have "0 < ln (6::real)" by simp
  ultimately show ?thesis by linarith
qed

lemma distinct_map_sort_cmp_descending:
  "distinct (map f (sort_cmp (\<lambda>a b. k b - k a) xs)) = distinct (map f xs)"
proof -
  have "mset (map f (sort_key (\<lambda>x. - k x) xs)) = mset (map f xs)"
    by simp
  then show ?thesis
    unfolding sort_cmp_descending by (rule mset_eq_imp_distinct_iff)
qed

lemma findIndex_nth:
  "findIndex P xs = int i \<Longrightarrow> i < length xs \<and> P (xs ! i)"
proof (induction xs arbitrary: i)
  case Nil
  then show ?case by simp
next
  case (Cons x xs)
  show ?case
  proof (cases "P x")
    case True
    with Cons.prems show ?thesis by simp
  next
    case False
    with Cons.prems have neg: "\<not> findIndex P xs < 0" and eq: "findIndex P xs + 1 = int i"
      by (auto simp: Let_def split: if_splits)
    then obtain j where j: "i = Suc j"
      by (cases i) auto
    with eq have "findIndex P xs = int j" by simp
    from Cons.IH [OF this] j show ?thesis by simp
  qed
qed

lemma distinct_filter_indexed_first:
  "distinct (map f (filter_indexed (\<lambda>x i self. findIndex (\<lambda>r. f r = f x) self = int i) xs))"
proof -
  let ?Q = "\<lambda>(x, i). findIndex (\<lambda>r. f r = f x) xs = int i"
  let ?ps = "filter ?Q (zip xs [0..<length xs])"
  have d: "distinct ?ps"
    by (simp add: distinct_zipI2)
  have inj: "inj_on (f \<circ> fst) (set ?ps)"
  proof (rule inj_onI)
    fix p q assume p: "p \<in> set ?ps" and q: "q \<in> set ?ps" and e: "(f \<circ> fst) p = (f \<circ> fst) q"
    obtain x i where pxi: "p = (x, i)" by (cases p)
    obtain y j where qyj: "q = (y, j)" by (cases q)
    from p pxi have fi: "findIndex (\<lambda>r. f r = f x) xs = int i" and zi: "(x, i) \<in> set (zip xs [0..<length xs])"
      by auto
    from q qyj have fj: "findIndex (\<lambda>r. f r = f y) xs = int j" and zj: "(y, j) \<in> set (zip xs [0..<length xs])"
      by auto
    from e pxi qyj have "f x = f y" by simp
    with fi fj have ij: "i = j" by simp
    from zi have "x = xs ! i" by (auto simp: in_set_zip)
    moreover from zj have "y = xs ! j" by (auto simp: in_set_zip)
    ultimately show "p = q" using ij pxi qyj by simp
  qed
  have "distinct (map (f \<circ> fst) ?ps)"
    using d inj by (simp add: distinct_map)
  then show ?thesis
    by (simp add: filter_indexed_def)
qed

section \<open>The deterministic heuristics of the service\<close>

text \<open>
  C7. \<^verbatim>\<open>getFallbackRecommendations\<close>: every entry comes from a product of the catalog
  that the user has not interacted with and whose category the user prefers, with score
  \<open>average * 20\<close>, the category-based reason and the tag \<^verbatim>\<open>fallback\<close>; the entries are in
  descending order of score (that is, of rating average); and for a non-negative
  \<^verbatim>\<open>maxRecommendations\<close> the result is exactly the first \<^verbatim>\<open>maxRecommendations\<close> of the
  eligible products in stable descending order of rating average. \<^verbatim>\<open>inStock\<close> plays no
  part in eligibility.
\<close>

theorem getFallbackRecommendations_ranks_preferred:
  "(\<forall>r \<in> set (getFallbackRecommendations products prefs m).
      \<exists>p \<in> set products.
        product.id' p \<notin> set (map interaction_input.productId (interactionHistory prefs))
        \<and> product.category p \<in> set (preferredCategories prefs)
        \<and> r = \<lparr>recommendation.productId = product.id' p,
                score = average (ratings p) * 20,
                reason = ''Recommended based on your interest in '' @ product.category p,
                category = ''fallback''\<rparr>)
   \<and> sorted (rev (map score (getFallbackRecommendations products prefs m)))
   \<and> (0 \<le> m \<longrightarrow>
        getFallbackRecommendations products prefs m =
          map (\<lambda>p. \<lparr>recommendation.productId = product.id' p,
                       score = average (ratings p) * 20,
                       reason = ''Recommended based on your interest in '' @ product.category p,
                       category = ''fallback''\<rparr>)
            (take (nat m)
               (sort_key (\<lambda>p. - average (ratings p))
                  (filter (\<lambda>p. product.id' p \<notin> set (map interaction_input.productId (interactionHistory prefs))
                              \<and> product.category p \<in> set (preferredCategories prefs))
                     products))))"
proof (intro conjI ballI impI)
  let ?ids = "map interaction_input.productId (interactionHistory prefs)"
  let ?eligible = "filter (\<lambda>p. product.category p \<in> set (preferredCategories prefs))
                     (filter (\<lambda>p. product.id' p \<notin> set ?ids) products)"
  let ?ranked = "sort_cmp (\<lambda>a b. average (ratings b) - average (ratings a)) ?eligible"
  let ?mk = "\<lambda>p. \<lparr>recommendation.productId = product.id' p,
                       score = average (ratings p) * 20,
                       reason = ''Recommended based on your interest in '' @ product.category p,
                       category = ''fallback''\<rparr>"
  have unfold: "getFallbackRecommendations products prefs m = map ?mk (slice 0 m ?ranked)"
    by (simp add: getFallbackRecommendations_def)
  {
    fix r assume "r \<in> set (getFallbackRecommendations products prefs m)"
    then obtain p where p: "p \<in> set (slice 0 m ?ranked)" and r: "r = ?mk p"
      unfolding unfold by auto
    from p have "p \<in> set ?ranked"
      by (rule subsetD [OF set_slice])
    then have "p \<in> set ?eligible"
      by (simp only: set_sort_cmp_descending)
    with r show "\<exists>p \<in> set products.
        product.id' p \<notin> set ?ids
        \<and> product.category p \<in> set (preferredCategories prefs) \<and> r = ?mk p"
      by auto
  }
  have "sorted (map (\<lambda>p. - average (ratings p)) ?ranked)"
    by (rule sorted_sort_cmp_descending)
  then have "sorted (map (\<lambda>p. - average (ratings p)) (slice 0 m ?ranked))"
    by (rule sorted_map_slice)
  then have "sorted (map (\<lambda>p. - (average (ratings p) * 20)) (slice 0 m ?ranked))"
    by (rule sorted_scaled)
  then have "sorted (rev (map (\<lambda>p. average (ratings p) * 20) (slice 0 m ?ranked)))"
    by (rule sorted_descending)
  then show "sorted (rev (map score (getFallbackRecommendations products prefs m)))"
    unfolding unfold by (simp add: comp_def)
  {
    assume "0 \<le> m"
    then show "getFallbackRecommendations products prefs m =
          map ?mk (take (nat m) (sort_key (\<lambda>p. - average (ratings p))
                  (filter (\<lambda>p. product.id' p \<notin> set ?ids
                              \<and> product.category p \<in> set (preferredCategories prefs))
                     products)))"
      unfolding unfold by (simp add: slice_0_take sort_cmp_descending)
  }
qed

theorem getFallbackRecommendations_ranks_preferred_witness:
  "0 \<le> (2::int)
   \<and> getFallbackRecommendations
        [example_product ''p1'' ''Electronics'' 999 4 10 False,
         example_product ''p2'' ''Electronics'' 500 4.8 200 True,
         example_product ''p3'' ''Books'' 20 5 7 True,
         example_product ''p4'' ''Electronics'' 300 4.5 50 True,
         example_product ''p5'' ''Electronics'' 100 3 12 True]
        (example_preference [''Electronics''] [example_interaction ''test-user-id'' ''p4''])
        2
      = [\<lparr>recommendation.productId = ''p2'', score = 96,
           reason = ''Recommended based on your interest in Electronics'',
           category = ''fallback''\<rparr>,
         \<lparr>recommendation.productId = ''p1'', score = 80,
           reason = ''Recommended based on your interest in Electronics'',
           category = ''fallback''\<rparr>]"
proof -
  have h: "0 \<le> (2::int)" by simp
  from getFallbackRecommendations_ranks_preferred
         [of "[example_product ''p1'' ''Electronics'' 999 4 10 False,
               example_product ''p2'' ''Electronics'' 500 4.8 200 True,
               example_product ''p3'' ''Books'' 20 5 7 True,
               example_product ''p4'' ''Electronics'' 300 4.5 50 True,
               example_product ''p5'' ''Electronics'' 100 3 12 True]"
             "example_preference [''Electronics''] [example_interaction ''test-user-id'' ''p4'']"
             2] h
  show ?thesis
    by (simp add: example_product_def example_preference_def example_interaction_def)
qed

text \<open>
  C5. \<^verbatim>\<open>getSimilarProducts\<close> when the model call rejects: every entry comes from a product
  of the target's category with another id, scored \<open>80 - |price - target.price| / 10\<close>
  without clamping; the entries follow an arrangement of all such products in ascending
  price distance, cut by \<^verbatim>\<open>slice(0, maxResults)\<close>; and for a target priced 100 with the
  candidates priced 90 and 150, the result lists the first with score 79 before the
  second with score 75.
\<close>

theorem getSimilarProducts_fallback_by_price:
  assumes "fst (generateContent g
             (SimilarPrompt target
                (slice 0 30 (filter (\<lambda>p. product.id' p \<noteq> product.id' target) allProducts)) m))
           = Rejects"
  shows "(\<forall>r \<in> set (fst (getSimilarProducts g target allProducts m)).
            \<exists>p \<in> set allProducts.
              product.category p = product.category target
              \<and> product.id' p \<noteq> product.id' target
              \<and> r = \<lparr>recommendation.productId = product.id' p,
                      score = 80 - \<bar>product.price p - product.price target\<bar> / 10,
                      reason = ''Similar '' @ product.category p @ '' product from '' @ brand p,
                      category = ''similar''\<rparr>)
       \<and> (\<exists>ranked.
            mset ranked = mset (filter (\<lambda>p. product.id' p \<noteq> product.id' target
                                  \<and> product.category p = product.category target) allProducts)
            \<and> sorted (map (\<lambda>p. \<bar>product.price p - product.price target\<bar>) ranked)
            \<and> fst (getSimilarProducts g target allProducts m) =
                map (\<lambda>p. \<lparr>recommendation.productId = product.id' p,
                      score = 80 - \<bar>product.price p - product.price target\<bar> / 10,
                      reason = ''Similar '' @ product.category p @ '' product from '' @ brand p,
                      category = ''similar''\<rparr>) (slice 0 m ranked)
            \<and> (0 \<le> m \<longrightarrow> slice 0 m ranked = take (nat m) ranked))
       \<and> (\<forall>a b. (allProducts = [b, a] \<or> allProducts = [a, b]) \<and> 2 \<le> m
              \<and> product.price target = 100 \<and> product.price a = 90 \<and> product.price b = 150
              \<and> product.category a = product.category target
              \<and> product.category b = product.category target
              \<and> product.id' a \<noteq> product.id' target \<and> product.id' b \<noteq> product.id' target
            \<longrightarrow> map (\<lambda>r. (recommendation.productId r, score r))
                  (fst (getSimilarProducts g target allProducts m))
                  = [(product.id' a, 79), (product.id' b, 75)])"
proof -
  let ?same = "filter (\<lambda>p. product.id' p \<noteq> product.id' target
                 \<and> product.category p = product.category target) allProducts"
  let ?dist = "\<lambda>p. \<bar>product.price p - product.price target\<bar>"
  let ?mk = "\<lambda>p. \<lparr>recommendation.productId = product.id' p,
                      score = 80 - \<bar>product.price p - product.price target\<bar> / 10,
                      reason = ''Similar '' @ product.category p @ '' product from '' @ brand p,
                      category = ''similar''\<rparr>"
  let ?ranked = "sort_key ?dist ?same"
  have "fst (getSimilarProducts g target allProducts m) = similarFallback target allProducts m"
    using assms by (auto simp: getSimilarProducts_def split: prod.splits)
  then have unfold: "fst (getSimilarProducts g target allProducts m) = map ?mk (slice 0 m ?ranked)"
    by (simp add: similarFallback_def sort_cmp_ascending)
  have first: "\<exists>p \<in> set allProducts.
              product.category p = product.category target
              \<and> product.id' p \<noteq> product.id' target \<and> r = ?mk p"
    if "r \<in> set (fst (getSimilarProducts g target allProducts m))" for r
  proof -
    from that obtain p where p: "p \<in> set (slice 0 m ?ranked)" and r: "r = ?mk p"
      unfolding unfold by auto
    from p have "p \<in> set ?ranked"
      by (rule subsetD [OF set_slice])
    then have "p \<in> set ?same" by simp
    with r show ?thesis by auto
  qed
  have "mset ?ranked = mset ?same \<and> sorted (map ?dist ?ranked)
        \<and> fst (getSimilarProducts g target allProducts m) = map ?mk (slice 0 m ?ranked)
        \<and> (0 \<le> m \<longrightarrow> slice 0 m ?ranked = take (nat m) ?ranked)"
    using unfold by (simp add: slice_0_take)
  then have second: "\<exists>ranked. mset ranked = mset ?same \<and> sorted (map ?dist ranked)
        \<and> fst (getSimilarProducts g target allProducts m) = map ?mk (slice 0 m ranked)
        \<and> (0 \<le> m \<longrightarrow> slice 0 m ranked = take (nat m) ranked)"
    by (rule exI)
  have third: "map (\<lambda>r. (recommendation.productId r, score r))
                  (fst (getSimilarProducts g target allProducts m))
                  = [(product.id' a, 79), (product.id' b, 75)]"
    if "allProducts = [b, a] \<or> allProducts = [a, b]" "2 \<le> m"
       "product.price target = 100" "product.price a = 90" "product.price b = 150"
       "product.category a = product.category target"
       "product.category b = product.category target"
       "product.id' a \<noteq> product.id' target" "product.id' b \<noteq> product.id' target" for a b
  proof -
    have "?ranked = [a, b]"
      using that by auto
    with unfold that show ?thesis
      by (simp add: slice_0_take)
  qed
  from first second third show ?thesis by blast
qed

theorem getSimilarProducts_fallback_by_price_witness:
  "fst (generateContent rejecting_model
          (SimilarPrompt (example_product ''t'' ''Audio'' 100 4 10 True)
             (slice 0 30 (filter (\<lambda>p. product.id' p \<noteq> product.id' (example_product ''t'' ''Audio'' 100 4 10 True))
                [example_product ''far'' ''Audio'' 150 4 10 True,
                 example_product ''near'' ''Audio'' 90 4 10 True]))
             5)) = Rejects
   \<and> map (\<lambda>r. (recommendation.productId r, score r))
        (fst (getSimilarProducts rejecting_model (example_product ''t'' ''Audio'' 100 4 10 True)
           [example_product ''far'' ''Audio'' 150 4 10 True,
            example_product ''near'' ''Audio'' 90 4 10 True] 5))
      = [(''near'', 79), (''far'', 75)]"
proof -
  let ?t = "example_product ''t'' ''Audio'' 100 4 10 True"
  let ?far = "example_product ''far'' ''Audio'' 150 4 10 True"
  let ?near = "example_product ''near'' ''Audio'' 90 4 10 True"
  have h: "fst (generateContent rejecting_model
          (SimilarPrompt ?t (slice 0 30 (filter (\<lambda>p. product.id' p \<noteq> product.id' ?t) [?far, ?near])) 5))
        = Rejects"
    by (simp add: generateContent_def rejecting_model_def)
  have "map (\<lambda>r. (recommendation.productId r, score r))
          (fst (getSimilarProducts rejecting_model ?t [?far, ?near] 5))
        = [(product.id' ?near, 79), (product.id' ?far, 75)]"
    using getSimilarProducts_fallback_by_price
            [OF h, THEN conjunct2, THEN conjunct2, rule_format, where a = ?near and b = ?far]
    by (simp add: example_product_def)
  with h show ?thesis
    by (simp add: example_product_def)
qed

text \<open>
  C6. \<^verbatim>\<open>getTrendingProducts\<close> when the model call rejects: the result lists the first
  \<^verbatim>\<open>maxResults\<close> products of an arrangement of the catalog in descending order of
  \<open>average * ln (count + 1)\<close>; and for A (average 4.0, count 100) and B (average 4.5,
  count 5), A comes before B.
\<close>

theorem getTrendingProducts_fallback_by_popularity:
  assumes "fst (generateContent g (TrendingPrompt (slice 0 50 products) m)) = Rejects"
  shows "(\<exists>ranked.
            mset ranked = mset products
            \<and> sorted (rev (map (\<lambda>p. average (ratings p) * ln (real (ratings.count (ratings p)) + 1)) ranked))
            \<and> fst (getTrendingProducts ts g products m) =
                map (\<lambda>p. \<lparr>recommendation.productId = product.id' p,
                       score = average (ratings p) * 20,
                       reason = ''Trending due to high rating ('' @ ts (average (ratings p))
                         @ '') and '' @ ts (real (ratings.count (ratings p))) @ '' reviews'',
                       category = ''trending''\<rparr>) (slice 0 m ranked)
            \<and> (0 \<le> m \<longrightarrow> slice 0 m ranked = take (nat m) ranked))
       \<and> (\<forall>a b. (products = [b, a] \<or> products = [a, b]) \<and> 2 \<le> m
              \<and> average (ratings a) = 4 \<and> ratings.count (ratings a) = 100
              \<and> average (ratings b) = 4.5 \<and> ratings.count (ratings b) = 5
            \<longrightarrow> map recommendation.productId (fst (getTrendingProducts ts g products m))
                  = [product.id' a, product.id' b])"
proof -
  let ?pop = "\<lambda>p. average (ratings p) * ln (real (ratings.count (ratings p)) + 1)"
  let ?ranked = "sort_key (\<lambda>p. - ?pop p) products"
  let ?mk = "\<lambda>p. \<lparr>recommendation.productId = product.id' p,
                       score = average (ratings p) * 20,
                       reason = ''Trending due to high rating ('' @ ts (average (ratings p))
                         @ '') and '' @ ts (real (ratings.count (ratings p))) @ '' reviews'',
                       category = ''trending''\<rparr>"
  have "fst (getTrendingProducts ts g products m) = trendingFallback ts products m"
    using assms by (auto simp: getTrendingProducts_def split: prod.splits)
  then have full: "fst (getTrendingProducts ts g products m) = map ?mk (slice 0 m ?ranked)"
    by (simp add: trendingFallback_def sort_cmp_descending [of ?pop])
  then have unfold: "map recommendation.productId (fst (getTrendingProducts ts g products m))
      = map product.id' (slice 0 m ?ranked)"
    by (simp add: comp_def)
  have "sorted (map (\<lambda>p. - ?pop p) ?ranked)"
    by (rule sorted_sort_key)
  then have desc: "sorted (rev (map ?pop ?ranked))"
    by (rule sorted_descending)
  have "mset ?ranked = mset products \<and> sorted (rev (map ?pop ?ranked))
        \<and> fst (getTrendingProducts ts g products m) = map ?mk (slice 0 m ?ranked)
        \<and> (0 \<le> m \<longrightarrow> slice 0 m ?ranked = take (nat m) ?ranked)"
    using full desc by (simp add: slice_0_take)
  then have first: "\<exists>ranked. mset ranked = mset products \<and> sorted (rev (map ?pop ranked))
        \<and> fst (getTrendingProducts ts g products m) = map ?mk (slice 0 m ranked)
        \<and> (0 \<le> m \<longrightarrow> slice 0 m ranked = take (nat m) ranked)"
    by (rule exI)
  have second: "map recommendation.productId (fst (getTrendingProducts ts g products m))
                  = [product.id' a, product.id' b]"
    if "products = [b, a] \<or> products = [a, b]" "2 \<le> m" "average (ratings a) = 4" "ratings.count (ratings a) = 100"
       "average (ratings b) = 4.5" "ratings.count (ratings b) = 5" for a b
  proof -
    have "?pop a = 4 * ln 101" and "?pop b = 4.5 * ln 6"
      using that by simp_all
    then have "?pop b < ?pop a"
      using ln_101_6 by simp
    then have "?ranked = [a, b]"
      using that(1) by auto
    with unfold that show ?thesis
      by (simp add: slice_0_take)
  qed
  from first second show ?thesis by blast
qed

theorem getTrendingProducts_fallback_by_popularity_witness:
  "fst (generateContent rejecting_model
          (TrendingPrompt
             (slice 0 50 [example_product ''B'' ''Audio'' 100 4.5 5 True,
                          example_product ''A'' ''Audio'' 100 4 100 True]) 10)) = Rejects
   \<and> map recommendation.productId
        (fst (getTrendingProducts (\<lambda>x. ''n'') rejecting_model
           [example_product ''B'' ''Audio'' 100 4.5 5 True,
            example_product ''A'' ''Audio'' 100 4 100 True] 10))
      = [''A'', ''B'']"
proof -
  let ?A = "example_product ''A'' ''Audio'' 100 4 100 True"
  let ?B = "example_product ''B'' ''Audio'' 100 4.5 5 True"
  have h: "fst (generateContent rejecting_model (TrendingPrompt (slice 0 50 [?B, ?A]) 10)) = Rejects"
    by (simp add: generateContent_def rejecting_model_def)
  have "map recommendation.productId
          (fst (getTrendingProducts (\<lambda>x. ''n'') rejecting_model [?B, ?A] 10))
        = [product.id' ?A, product.id' ?B]"
    using getTrendingProducts_fallback_by_popularity
            [OF h, of "\<lambda>x. ''n''", THEN conjunct2, rule_format, where a = ?A and b = ?B]
    by (simp add: example_product_def)
  with h show ?thesis
    by (simp add: example_product_def)
qed

section \<open>The recommendation pipeline\<close>

lemma distinct_uniqueRecommendations:
  "distinct (map recommendation.productId (uniqueRecommendations recs))"
  unfolding uniqueRecommendations_def by (rule distinct_filter_indexed_first)

lemma respond_generateContent: "generateContent g p = (r, g') \<Longrightarrow> respond g' = respond g"
  by (auto simp: generateContent_def)

lemma respond_analyzeUserBehavior:
  "analyzeUserBehavior g prefs = (r, g') \<Longrightarrow> respond g' = respond g"
  by (auto simp: analyzeUserBehavior_def Let_def generateContent_def
        split: prod.splits reply.splits extraction.splits)

lemma respond_getContentBasedRecommendations:
  "getContentBasedRecommendations g products prefs a = (r, g') \<Longrightarrow> respond g' = respond g"
  by (auto simp: getContentBasedRecommendations_def Let_def generateContent_def
        split: prod.splits reply.splits extraction.splits if_splits)

lemma respond_getCollaborativeRecommendations:
  "getCollaborativeRecommendations g products prefs a = (r, g') \<Longrightarrow> respond g' = respond g"
  by (auto simp: getCollaborativeRecommendations_def Let_def generateContent_def
        split: prod.splits reply.splits extraction.splits)

lemma combineAndRank_distinct:
  assumes "combineAndRankRecommendations g content collab a = (Inr recs, g')"
    and "\<forall>n a u obj v. respond g n (RankPrompt a u) = Text obj (Parsed v)
           \<longrightarrow> distinct (map recommendation.productId v)"
  shows "distinct (map recommendation.productId recs)"
proof -
  let ?unique = "uniqueRecommendations (content @ collab)"
  let ?r = "respond g (length (prompts g)) (RankPrompt a ?unique)"
  show ?thesis
  proof (cases ?r)
    case Rejects
    with assms(1) show ?thesis
      by (simp add: combineAndRankRecommendations_def generateContent_def)
  next
    case (Text obj arr)
    show ?thesis
    proof (cases arr)
      case (Parsed v)
      with Text assms(1) have "recs = v"
        by (simp add: combineAndRankRecommendations_def generateContent_def)
      moreover from Text Parsed assms(2) have "distinct (map recommendation.productId v)"
        by blast
      ultimately show ?thesis by simp
    next
      case NoMatch
      with Text assms(1) have "recs = sort_cmp (\<lambda>a b. score b - score a) ?unique"
        by (simp add: combineAndRankRecommendations_def generateContent_def Let_def)
      then show ?thesis
        by (simp only: distinct_map_sort_cmp_descending distinct_uniqueRecommendations)
    next
      case Unparsable
      with Text assms(1) have "recs = sort_cmp (\<lambda>a b. score b - score a) ?unique"
        by (simp add: combineAndRankRecommendations_def generateContent_def Let_def)
      then show ?thesis
        by (simp only: distinct_map_sort_cmp_descending distinct_uniqueRecommendations)
    qed
  qed
qed

lemma getFallbackRecommendations_length:
  "0 \<le> m \<Longrightarrow> int (length (getFallbackRecommendations products prefs m)) \<le> m"
  using length_slice_0 [of m] by (simp add: getFallbackRecommendations_def le_nat_iff)

lemma getFallbackRecommendations_distinct:
  assumes "distinct (map product.id' products)"
  shows "distinct (map recommendation.productId (getFallbackRecommendations products prefs m))"
proof -
  have "distinct (map product.id' (filter P (filter Q products)))" for P Q
    using assms by (simp add: distinct_map_filter)
  then have "distinct (map product.id' (sort_cmp (\<lambda>a b. average (ratings b) - average (ratings a))
                (filter P (filter Q products))))" for P Q
    by (simp only: distinct_map_sort_cmp_descending)
  then have "distinct (map product.id' (slice 0 m (sort_cmp (\<lambda>a b. average (ratings b) - average (ratings a))
                (filter P (filter Q products)))))" for P Q
    by (rule distinct_map_slice)
  then show ?thesis
    by (simp add: getFallbackRecommendations_def comp_def)
qed

lemma pipeline_cases:
  assumes "pipeline g products prefs m = (Inr recs, g')"
  obtains a g1 content g2 collab g3 combined where
    "analyzeUserBehavior g prefs = (Inr a, g1)"
    "getContentBasedRecommendations g1 products prefs a = (Inr content, g2)"
    "getCollaborativeRecommendations g2 products prefs a = (Inr collab, g3)"
    "combineAndRankRecommendations g3 content collab a = (Inr combined, g')"
    "recs = slice 0 m combined"
  using assms unfolding pipeline_def
  by (auto split: prod.splits sum.splits)





text \<open>
  C1 fails as stated: a ranking reply that parses is returned as the model wrote it, so
  an array that lists a product twice reaches the caller; \<^verbatim>\<open>slice(0, -1)\<close> keeps all but
  the last entry; and the fallback repeats an id that the catalog repeats.
\<close>

theorem generateRecommendations_bounded_distinct_counterexample:
  "fst (generateRecommendations repeating_model ''test-user-id'' example_catalog
          (example_preference [''Electronics''] []) 10)
     = Inr [example_recommendation ''p1'' 95, example_recommendation ''p1'' 70]
   \<and> \<not> distinct (map recommendation.productId
           [example_recommendation ''p1'' 95, example_recommendation ''p1'' 70])
   \<and> fst (generateRecommendations collaborative_model ''test-user-id'' example_catalog
          (example_preference [''Electronics''] []) (- 1))
     = Inr [example_recommendation ''p2'' 90]
   \<and> \<not> int (length [example_recommendation ''p2'' 90]) \<le> - 1
   \<and> fst (generateRecommendations rejecting_model ''test-user-id''
          [example_product ''p1'' ''Electronics'' 999 4 10 True,
           example_product ''p1'' ''Electronics'' 899 4 10 True]
          (example_preference [''Electronics''] []) 10)
     = Inr (getFallbackRecommendations
          [example_product ''p1'' ''Electronics'' 999 4 10 True,
           example_product ''p1'' ''Electronics'' 899 4 10 True]
          (example_preference [''Electronics''] []) 10)
   \<and> map recommendation.productId
        (getFallbackRecommendations
          [example_product ''p1'' ''Electronics'' 999 4 10 True,
           example_product ''p1'' ''Electronics'' 899 4 10 True]
          (example_preference [''Electronics''] []) 10)
     = [''p1'', ''p1'']"
proof -
  have a: "fst (generateRecommendations repeating_model ''test-user-id'' example_catalog
          (example_preference [''Electronics''] []) 10)
     = Inr [example_recommendation ''p1'' 95, example_recommendation ''p1'' 70]"
    by code_simp
  have b: "\<not> distinct (map recommendation.productId
           [example_recommendation ''p1'' 95, example_recommendation ''p1'' 70])"
    by (simp add: example_recommendation_def)
  have c: "fst (generateRecommendations collaborative_model ''test-user-id'' example_catalog
          (example_preference [''Electronics''] []) (- 1))
     = Inr [example_recommendation ''p2'' 90]"
    by code_simp
  have d: "fst (generateRecommendations rejecting_model ''test-user-id''
          [example_product ''p1'' ''Electronics'' 999 4 10 True,
           example_product ''p1'' ''Electronics'' 899 4 10 True]
          (example_preference [''Electronics''] []) 10)
     = Inr (getFallbackRecommendations
          [example_product ''p1'' ''Electronics'' 999 4 10 True,
           example_product ''p1'' ''Electronics'' 899 4 10 True]
          (example_preference [''Electronics''] []) 10)"
    by code_simp
  have e: "map recommendation.productId
        (getFallbackRecommendations
          [example_product ''p1'' ''Electronics'' 999 4 10 True,
           example_product ''p1'' ''Electronics'' 899 4 10 True]
          (example_preference [''Electronics''] []) 10)
     = [''p1'', ''p1'']"
    by code_simp
  from a b c d e show ?thesis by simp
qed

text \<open>
  C1, amended. Whenever \<^verbatim>\<open>generateRecommendations\<close> returns, for every behaviour of the
  model: if \<^verbatim>\<open>maxRecommendations\<close> is not negative the result has at most that many
  entries; and if the product ids of the catalog are distinct and every array that the
  model returns for a ranking prompt has distinct product ids (as is the case when its
  ranking replies hold no parsable array), the product ids of the result are distinct.
\<close>

theorem generateRecommendations_bounded_distinct:
  assumes "generateRecommendations g uid products prefs m = (Inr recs, g')"
  shows "(0 \<le> m \<longrightarrow> int (length recs) \<le> m)
       \<and> (distinct (map product.id' products)
           \<and> (\<forall>n a u obj v. respond g n (RankPrompt a u) = Text obj (Parsed v)
                  \<longrightarrow> distinct (map recommendation.productId v))
          \<longrightarrow> distinct (map recommendation.productId recs))"
proof (cases "pipeline g products prefs m")
  case (Pair out g1)
  show ?thesis
  proof (cases out)
    case (Inl e)
    with Pair assms have "recs = getFallbackRecommendations products prefs m"
      by (simp add: generateRecommendations_def)
    then show ?thesis
      using getFallbackRecommendations_length getFallbackRecommendations_distinct by blast
  next
    case (Inr rs)
    with Pair assms have p: "pipeline g products prefs m = (Inr recs, g')"
      by (simp add: generateRecommendations_def)
    from p obtain a g1 content g2 collab g3 combined where
      s1: "analyzeUserBehavior g prefs = (Inr a, g1)" and
      s2: "getContentBasedRecommendations g1 products prefs a = (Inr content, g2)" and
      s3: "getCollaborativeRecommendations g2 products prefs a = (Inr collab, g3)" and
      s4: "combineAndRankRecommendations g3 content collab a = (Inr combined, g')" and
      recs: "recs = slice 0 m combined"
      by (rule pipeline_cases)
    have "respond g3 = respond g"
      using respond_analyzeUserBehavior [OF s1] respond_getContentBasedRecommendations [OF s2]
        respond_getCollaborativeRecommendations [OF s3] by simp
    then have d: "distinct (map recommendation.productId combined)"
      if "\<forall>n a u obj v. respond g n (RankPrompt a u) = Text obj (Parsed v)
                  \<longrightarrow> distinct (map recommendation.productId v)"
      using combineAndRank_distinct [OF s4] that by simp
    have l: "int (length recs) \<le> m" if "0 \<le> m"
      using length_slice_0 [OF that, of combined] recs that by (simp add: le_nat_iff)
    from d l recs show ?thesis
      using distinct_map_slice by blast
  qed
qed

theorem generateRecommendations_bounded_distinct_witness:
  "0 \<le> (10::int)
   \<and> distinct (map product.id' example_catalog)
   \<and> fst (generateRecommendations collaborative_model ''test-user-id'' example_catalog
             (example_preference [''Electronics''] []) 10)
        = Inr [example_recommendation ''p2'' 90, example_recommendation ''p1'' 70]
   \<and> int (length [example_recommendation ''p2'' 90, example_recommendation ''p1'' 70]) \<le> 10
   \<and> distinct (map recommendation.productId
         [example_recommendation ''p2'' 90, example_recommendation ''p1'' 70])"
proof -
  let ?run = "generateRecommendations collaborative_model ''test-user-id'' example_catalog
                (example_preference [''Electronics''] []) 10"
  let ?recs = "[example_recommendation ''p2'' 90, example_recommendation ''p1'' 70]"
  have ev: "fst ?run = Inr ?recs"
    by code_simp
  then have run: "?run = (Inr ?recs, snd ?run)"
    by (simp add: prod_eq_iff)
  have ids: "distinct (map product.id' example_catalog)"
    by code_simp
  have rank: "\<forall>n a u obj v. respond collaborative_model n (RankPrompt a u) = Text obj (Parsed v)
          \<longrightarrow> distinct (map recommendation.productId v)"
    by (simp add: collaborative_model_def)
  from generateRecommendations_bounded_distinct [OF run] ids rank
  have "int (length ?recs) \<le> 10 \<and> distinct (map recommendation.productId ?recs)"
    by simp
  with ev ids show ?thesis
    by simp
qed

text \<open>
  C2. \<^verbatim>\<open>generateRecommendations\<close> returns a list for every input and every behaviour of
  the model, and when the pipeline of the four stages throws, the list is the one of
  \<^verbatim>\<open>getFallbackRecommendations\<close>.
\<close>

theorem generateRecommendations_never_raises:
  "(\<exists>recs g'. generateRecommendations g uid products prefs m = (Inr recs, g'))
   \<and> (\<forall>e g'. pipeline g products prefs m = (Inl e, g')
        \<longrightarrow> generateRecommendations g uid products prefs m
              = (Inr (getFallbackRecommendations products prefs m), g'))"
  by (cases "pipeline g products prefs m"; cases "fst (pipeline g products prefs m)")
     (auto simp: generateRecommendations_def)

theorem generateRecommendations_never_raises_witness:
  "fst (pipeline failing_second_model example_catalog
          (example_preference [''Electronics''] []) 2) = Inl ModelError
   \<and> fst (generateRecommendations failing_second_model ''test-user-id'' example_catalog
            (example_preference [''Electronics''] []) 2)
       = Inr (getFallbackRecommendations example_catalog
                (example_preference [''Electronics''] []) 2)
   \<and> map recommendation.productId
        (getFallbackRecommendations example_catalog (example_preference [''Electronics''] []) 2)
       = [''p2'', ''p4'']"
proof -
  let ?P = "example_preference [''Electronics''] []"
  let ?p = "pipeline failing_second_model example_catalog ?P 2"
  have ev: "fst ?p = Inl ModelError"
    by code_simp
  then have run: "?p = (Inl ModelError, snd ?p)"
    by (simp add: prod_eq_iff)
  have fb: "map recommendation.productId (getFallbackRecommendations example_catalog ?P 2)
      = [''p2'', ''p4'']"
    by code_simp
  from generateRecommendations_never_raises
         [of failing_second_model "''test-user-id''" example_catalog ?P 2,
          THEN conjunct2, rule_format, OF run]
  have "fst (generateRecommendations failing_second_model ''test-user-id'' example_catalog ?P 2)
       = Inr (getFallbackRecommendations example_catalog ?P 2)"
    by simp
  with ev fb show ?thesis by simp
qed







text \<open>
  C10. The default preferences have no preferred category; and with no preferred category
  \<^verbatim>\<open>getFallbackRecommendations\<close> returns the empty list for every catalog and every
  \<^verbatim>\<open>maxRecommendations\<close>, so that \<^verbatim>\<open>generateRecommendations\<close> returns the empty list
  whenever the pipeline throws.
\<close>

theorem getFallbackRecommendations_without_categories:
  "user_preference.preferredCategories (getDefaultPreferences now) = []
   \<and> (user_preference.preferredCategories prefs = [] \<longrightarrow>
        getFallbackRecommendations products prefs m = []
        \<and> (\<forall>e g'. pipeline g products prefs m = (Inl e, g')
              \<longrightarrow> generateRecommendations g uid products prefs m = (Inr [], g')))"
  by (simp add: getDefaultPreferences_def getFallbackRecommendations_def slice_def sort_cmp_def
        generateRecommendations_def)

theorem getFallbackRecommendations_without_categories_witness:
  "user_preference.preferredCategories (getDefaultPreferences 0) = []
   \<and> fst (pipeline rejecting_model example_catalog (getDefaultPreferences 0) 10) = Inl ModelError
   \<and> fst (generateRecommendations rejecting_model ''anonymous'' example_catalog
            (getDefaultPreferences 0) 10) = Inr []"
proof -
  let ?p = "pipeline rejecting_model example_catalog (getDefaultPreferences 0) 10"
  have ev: "fst ?p = Inl ModelError"
    by code_simp
  then have run: "?p = (Inl ModelError, snd ?p)"
    by (simp add: prod_eq_iff)
  note th = getFallbackRecommendations_without_categories
              [of 0 "getDefaultPreferences 0" example_catalog 10 rejecting_model "''anonymous''"]
  from th have c: "user_preference.preferredCategories (getDefaultPreferences 0) = []"
    by (rule conjunct1)
  from th c run
  have "generateRecommendations rejecting_model ''anonymous'' example_catalog
            (getDefaultPreferences 0) 10 = (Inr [], snd ?p)"
    by blast
  with c ev show ?thesis by simp
qed

section \<open>The interaction tracker\<close>

lemma drop_overflow_append:
  "drop (length (drop (length xs - k) xs @ ys) - k) (drop (length xs - k) xs @ ys)
     = drop (length (xs @ ys) - k) (xs @ ys)"
  by (cases "length xs \<le> k"; cases "length ys \<le> k") (auto simp: add.commute)

lemma trackInteractionLocal_stores:
  assumes "stored_interactions w \<noteq> Garbage"
  shows "trackInteractionLocal t newId now ev w =
           Inr (w\<lparr>stored_interactions :=
                  Json (drop (length (getAllInteractions w @ [newInteraction t newId now ev]) - 1000)
                          (getAllInteractions w @ [newInteraction t newId now ev]))\<rparr>)"
  using assms
  by (cases "stored_interactions w")
     (simp_all add: trackInteractionLocal_def getAllInteractions_def Let_def)

lemma trackInteractionLocal_garbage:
  "stored_interactions w = Garbage \<Longrightarrow> trackInteractionLocal t newId now ev w = Inl ParseError"
  by (simp add: trackInteractionLocal_def)

lemma trackInteractionsLocal_stores:
  assumes "stored_interactions w \<noteq> Garbage" and "events \<noteq> []"
  shows "trackInteractionsLocal t events w =
           Inr (w\<lparr>stored_interactions :=
                  Json (drop (length (getAllInteractions w
                                  @ map (\<lambda>(newId, now, ev). newInteraction t newId now ev) events) - 1000)
                          (getAllInteractions w
                             @ map (\<lambda>(newId, now, ev). newInteraction t newId now ev) events))\<rparr>)"
  using assms
proof (induction events arbitrary: w)
  case Nil
  then show ?case by simp
next
  case (Cons e events)
  obtain newId now ev where e: "e = (newId, now, ev)" by (cases e)
  let ?x = "newInteraction t newId now ev"
  let ?w1 = "w\<lparr>stored_interactions :=
                  Json (drop (length (getAllInteractions w @ [?x]) - 1000)
                          (getAllInteractions w @ [?x]))\<rparr>"
  have step: "trackInteractionLocal t newId now ev w = Inr ?w1"
    using Cons.prems(1) by (rule trackInteractionLocal_stores)
  show ?case
  proof (cases "events = []")
    case True
    with step e show ?thesis by simp
  next
    case False
    have ok: "stored_interactions ?w1 \<noteq> Garbage" by simp
    have all1: "getAllInteractions ?w1 = drop (length (getAllInteractions w @ [?x]) - 1000)
                          (getAllInteractions w @ [?x])"
      by (simp add: getAllInteractions_def)
    from Cons.IH [OF ok False] step e show ?thesis
      unfolding all1
      using drop_overflow_append [of "getAllInteractions w @ [?x]" 1000
              "map (\<lambda>(newId, now, ev). newInteraction t newId now ev) events"]
      by simp
  qed
qed

text \<open>
  C4. After any call of \<^verbatim>\<open>trackInteractionLocal\<close> that returns, the local store holds the
  previous entries followed by the new one, cut from the front down to at most 1000
  entries; and 1001 calls on an empty store leave exactly the 1000 entries of the last
  1000 calls, the entry of the first call being the one that is gone.
\<close>

theorem local_store_capped_fifo:
  "(\<forall>w'. trackInteractionLocal t newId now ev w = Inr w' \<longrightarrow>
      (\<exists>xs. stored_interactions w' = Json xs \<and> length xs \<le> 1000
            \<and> xs = drop (length (getAllInteractions w @ [newInteraction t newId now ev]) - 1000)
                     (getAllInteractions w @ [newInteraction t newId now ev])))
   \<and> ((stored_interactions w = Missing \<or> stored_interactions w = Json []) \<and> length events = 1001 \<longrightarrow>
        (\<exists>w'. trackInteractionsLocal t events w = Inr w'
             \<and> stored_interactions w' =
                  Json (map (\<lambda>(newId, now, ev). newInteraction t newId now ev) (tl events))
             \<and> length (getAllInteractions w') = 1000))"
proof (intro conjI allI impI)
  fix w' assume r: "trackInteractionLocal t newId now ev w = Inr w'"
  then have "stored_interactions w \<noteq> Garbage"
    using trackInteractionLocal_garbage [of w t newId now ev] by auto
  from trackInteractionLocal_stores [OF this, of t newId now ev] r
  show "\<exists>xs. stored_interactions w' = Json xs \<and> length xs \<le> 1000
            \<and> xs = drop (length (getAllInteractions w @ [newInteraction t newId now ev]) - 1000)
                     (getAllInteractions w @ [newInteraction t newId now ev])"
    by auto
next
  assume h: "(stored_interactions w = Missing \<or> stored_interactions w = Json []) \<and> length events = 1001"
  then have ok: "stored_interactions w \<noteq> Garbage" and ne: "events \<noteq> []"
    and empty: "getAllInteractions w = []"
    by (auto simp: getAllInteractions_def)
  from h obtain e rest where ev: "events = e # rest" and len: "length rest = 1000"
    by (cases events) auto
  let ?new = "\<lambda>(newId, now, ev). newInteraction t newId now ev"
  have "drop (length (map ?new events) - 1000) (map ?new events) = map ?new (tl events)"
    using ev len by simp
  with trackInteractionsLocal_stores [OF ok ne, of t] empty ev len
  show "\<exists>w'. trackInteractionsLocal t events w = Inr w'
             \<and> stored_interactions w' = Json (map ?new (tl events))
             \<and> length (getAllInteractions w') = 1000"
    by (simp add: getAllInteractions_def)
qed

theorem local_store_capped_fifo_witness:
  "trackInteractionLocal (example_tracker (Returns None)) ''id0'' 0 (example_event ''u1'' ''p1'')
      (example_world Missing)
     = Inr ((example_world Missing)
         \<lparr>stored_interactions :=
            Json [newInteraction (example_tracker (Returns None)) ''id0'' 0
                    (example_event ''u1'' ''p1'')]\<rparr>)
   \<and> (stored_interactions (example_world Missing) = Missing
        \<or> stored_interactions (example_world Missing) = Json [])
   \<and> length (map (\<lambda>i. (''id'', int i, example_event ''u1'' ''p1'')) [0..<1001]) = 1001
   \<and> (\<exists>w'. trackInteractionsLocal (example_tracker (Returns None))
               (map (\<lambda>i. (''id'', int i, example_event ''u1'' ''p1'')) [0..<1001])
               (example_world Missing) = Inr w'
          \<and> stored_interactions w' =
               Json (map (\<lambda>(newId, now, ev). newInteraction (example_tracker (Returns None)) newId now ev)
                      (tl (map (\<lambda>i. (''id'', int i, example_event ''u1'' ''p1'')) [0..<1001])))
          \<and> length (getAllInteractions w') = 1000)"
proof -
  let ?t = "example_tracker (Returns None)"
  let ?w = "example_world Missing"
  let ?events = "map (\<lambda>i. (''id'', int i, example_event ''u1'' ''p1'')) [0..<1001]"
  let ?first = "(?w) \<lparr>stored_interactions :=
            Json [newInteraction ?t ''id0'' 0 (example_event ''u1'' ''p1'')]\<rparr>"
  have one: "trackInteractionLocal ?t ''id0'' 0 (example_event ''u1'' ''p1'') ?w = Inr ?first"
    by (simp add: trackInteractionLocal_def example_world_def)
  have empty: "stored_interactions ?w = Missing \<or> stored_interactions ?w = Json []"
    by (simp add: example_world_def)
  have len: "length ?events = 1001"
    by simp
  note th = local_store_capped_fifo [of ?t "''id0''" 0 "example_event ''u1'' ''p1''" ?w ?events]
  from th one have "\<exists>xs. stored_interactions ?first = Json xs \<and> length xs \<le> 1000"
    by blast
  from th empty len
  have "\<exists>w'. trackInteractionsLocal ?t ?events ?w = Inr w'
          \<and> stored_interactions w' =
               Json (map (\<lambda>(newId, now, ev). newInteraction ?t newId now ev) (tl ?events))
          \<and> length (getAllInteractions w') = 1000"
    by blast
  with one empty len show ?thesis
    by blast
qed

text \<open>
  C8. When \<^verbatim>\<open>auth.getUser\<close> resolves with no user, \<^verbatim>\<open>trackInteraction\<close> returns normally,
  whatever the local store holds; the only remote call is \<^verbatim>\<open>auth.getUser\<close> itself (no
  insert), and the local store is left as it was.
\<close>

theorem trackInteraction_without_user:
  assumes "auth_getUser (supabase t) = Returns None"
  shows "\<exists>w'. trackInteraction t newId now ev w = Inr w'
           \<and> stored_interactions w' = stored_interactions w
           \<and> stored_preferences w' = stored_preferences w
           \<and> remote_ops w' = remote_ops w @ [AuthGetUser]"
  using assms by (simp add: trackInteraction_def issue_def)

theorem trackInteraction_without_user_witness:
  "auth_getUser (supabase (example_tracker (Returns None))) = Returns None
   \<and> (\<exists>w'. trackInteraction (example_tracker (Returns None)) ''id0'' 0
               (example_event ''u1'' ''p1'') (example_world Garbage) = Inr w'
          \<and> stored_interactions w' = Garbage
          \<and> remote_ops w' = [AuthGetUser])"
proof -
  have h: "auth_getUser (supabase (example_tracker (Returns None))) = Returns None"
    by (simp add: example_tracker_def)
  from trackInteraction_without_user
         [OF h, of "''id0''" 0 "example_event ''u1'' ''p1''" "example_world Garbage"] h
  show ?thesis
    by (auto simp: example_world_def)
qed














end
